theory Spec2Isabelle
  imports Complex_Main
begin

section \<open>The vending machine of the State pattern example\<close>

text \<open>
  The development embeds \<^verbatim>\<open>src/behavioural-patterns/state-pattern/index.ts\<close>: the
  switch-based \<^verbatim>\<open>VendingMachine\<close> (lines 29-107) and the State-pattern
  \<^verbatim>\<open>VendingMachine\<close> with its four \<^verbatim>\<open>MachineState\<close> classes (lines 117-234).

  Every method of the source mutates the machine, writes to the console or starts a
  timer. The model passes one record through every method: the fields of the object, the
  lines written by \<^verbatim>\<open>console.log\<close> so far, and the number of \<^verbatim>\<open>setTimeout\<close>
  callbacks that have been started and have not yet run.
\<close>

subsection \<open>Values of the host language\<close>

text \<open>
  A TypeScript \<^verbatim>\<open>number\<close>. The source stores, prints and never computes with the amounts,
  so the finite values are all that matter; they are modelled as reals.
\<close>

type_synonym number = real

text \<open>
  An argument of \<^verbatim>\<open>console.log\<close> is built with \<^verbatim>\<open>+\<close> from string literals, the item code
  and the amount. A line keeps the amount as a number instead of fixing its decimal
  rendering.
\<close>

datatype piece = Txt string | Amt number

type_synonym line = "piece list"

text \<open>
  A field declared without an initialiser (\<^verbatim>\<open>private selectedItem: string;\<close>) holds
  \<^verbatim>\<open>undefined\<close> until it is assigned: \<open>None\<close>. Concatenating \<^verbatim>\<open>undefined\<close> to a string
  gives the text \<^verbatim>\<open>undefined\<close>.
\<close>

fun js_string :: "string option \<Rightarrow> string" where
  "js_string None = ''undefined''"
| "js_string (Some s) = s"

subsection \<open>The State-pattern machine (lines 117-234)\<close>

datatype MachineState = IdleState | ItemSelectedState | HasMoneyState | DispensingState

record VendingMachine =
  currentState :: MachineState
  selectedItem :: "string option"
  insertedAmount :: "number option"
  console :: "line list"
  timers :: nat

text \<open>
  \<open>timers\<close> counts the pending callbacks. Every callback the source starts is the same
  closure over the same machine with the same delay of 1000 ms, so pending callbacks
  differ in nothing but their number.
\<close>

definition console_log :: "line \<Rightarrow> VendingMachine \<Rightarrow> VendingMachine" where
  "console_log l ctx = ctx\<lparr>console := console ctx @ [l]\<rparr>"

definition setTimeout :: "VendingMachine \<Rightarrow> VendingMachine" where
  "setTimeout ctx = ctx\<lparr>timers := Suc (timers ctx)\<rparr>"

text \<open>The constructor assigns \<^verbatim>\<open>currentState\<close> only (lines 197-199).\<close>

definition new_VendingMachine :: VendingMachine where
  "new_VendingMachine =
     \<lparr>currentState = IdleState, selectedItem = None, insertedAmount = None,
      console = [], timers = 0\<rparr>"

definition setState :: "MachineState \<Rightarrow> VendingMachine \<Rightarrow> VendingMachine" where
  "setState newState ctx = ctx\<lparr>currentState := newState\<rparr>"

definition setSelectedItem :: "string \<Rightarrow> VendingMachine \<Rightarrow> VendingMachine" where
  "setSelectedItem itemCode ctx = ctx\<lparr>selectedItem := Some itemCode\<rparr>"

definition setInsertedAmount :: "number \<Rightarrow> VendingMachine \<Rightarrow> VendingMachine" where
  "setInsertedAmount amount ctx = ctx\<lparr>insertedAmount := Some amount\<rparr>"

definition getSelectedItem :: "VendingMachine \<Rightarrow> string option" where
  "getSelectedItem ctx = selectedItem ctx"

text \<open>\<^verbatim>\<open>reset()\<close>, lines 229-233: three assignments; no timer is touched.\<close>

definition reset :: "VendingMachine \<Rightarrow> VendingMachine" where
  "reset ctx = ctx\<lparr>selectedItem := Some '''', insertedAmount := Some 0, currentState := IdleState\<rparr>"

text \<open>
  The three methods of the interface \<^verbatim>\<open>MachineState\<close>, one equation for each class that
  implements it (lines 124-189).
\<close>

fun MachineState_selectItem :: "MachineState \<Rightarrow> string \<Rightarrow> VendingMachine \<Rightarrow> VendingMachine" where
  "MachineState_selectItem IdleState itemCode ctx =
     setState ItemSelectedState
       (setSelectedItem itemCode
         (console_log [Txt (''Item selected: '' @ itemCode)] ctx))"
| "MachineState_selectItem ItemSelectedState itemCode ctx =
     console_log [Txt (''Item already selected: '' @ js_string (getSelectedItem ctx))] ctx"
| "MachineState_selectItem HasMoneyState itemCode ctx =
     console_log [Txt ''Cannot change item after inserting money.''] ctx"
| "MachineState_selectItem DispensingState itemCode ctx =
     console_log [Txt ''Please wait, dispensing in progress.''] ctx"

fun MachineState_insertCoin :: "MachineState \<Rightarrow> number \<Rightarrow> VendingMachine \<Rightarrow> VendingMachine" where
  "MachineState_insertCoin IdleState amount ctx =
     console_log [Txt ''Please select an item before inserting coins.''] ctx"
| "MachineState_insertCoin ItemSelectedState amount ctx =
     setState HasMoneyState
       (setInsertedAmount amount
         (console_log
           [Txt ''Inserted $'', Amt amount,
            Txt ('' for item: '' @ js_string (getSelectedItem ctx))] ctx))"
| "MachineState_insertCoin HasMoneyState amount ctx =
     console_log [Txt ''Money already inserted.''] ctx"
| "MachineState_insertCoin DispensingState amount ctx =
     console_log [Txt ''Please wait, dispensing in progress.''] ctx"

fun MachineState_dispenseItem :: "MachineState \<Rightarrow> VendingMachine \<Rightarrow> VendingMachine" where
  "MachineState_dispenseItem IdleState ctx =
     console_log [Txt ''No item selected. Nothing to dispense.''] ctx"
| "MachineState_dispenseItem ItemSelectedState ctx =
     console_log [Txt ''Insert coin before dispensing.''] ctx"
| "MachineState_dispenseItem HasMoneyState ctx =
     setTimeout
       (setState DispensingState
         (console_log [Txt (''Dispensing item: '' @ js_string (getSelectedItem ctx))] ctx))"
| "MachineState_dispenseItem DispensingState ctx =
     console_log [Txt ''Already dispensing. Please wait.''] ctx"

text \<open>The body of the callback given to \<^verbatim>\<open>setTimeout\<close> (lines 170-173).\<close>

definition dispense_callback :: "VendingMachine \<Rightarrow> VendingMachine" where
  "dispense_callback ctx = reset (console_log [Txt ''Item dispensed successfully.''] ctx)"

text \<open>The machine's own methods delegate to the current state (lines 217-227).\<close>

definition selectItem :: "string \<Rightarrow> VendingMachine \<Rightarrow> VendingMachine" where
  "selectItem itemCode ctx = MachineState_selectItem (currentState ctx) itemCode ctx"

definition insertCoin :: "number \<Rightarrow> VendingMachine \<Rightarrow> VendingMachine" where
  "insertCoin amount ctx = MachineState_insertCoin (currentState ctx) amount ctx"

definition dispenseItem :: "VendingMachine \<Rightarrow> VendingMachine" where
  "dispenseItem ctx = MachineState_dispenseItem (currentState ctx) ctx"

subsection \<open>Events\<close>

text \<open>
  The five events of the specification, each delivered by the operation the source has
  for it: the three public methods, the public \<^verbatim>\<open>reset()\<close>, and the timer running a
  pending callback. A completion can be delivered only while a callback is pending;
  \<open>None\<close> says that the event cannot occur.
\<close>

datatype Event =
  SelectItem string | InsertPayment number | RequestDispense | DispenseComplete | Reset

fun handle :: "Event \<Rightarrow> VendingMachine \<Rightarrow> VendingMachine option" where
  "handle (SelectItem code) ctx = Some (selectItem code ctx)"
| "handle (InsertPayment amount) ctx = Some (insertCoin amount ctx)"
| "handle RequestDispense ctx = Some (dispenseItem ctx)"
| "handle DispenseComplete ctx =
     (if timers ctx = 0 then None
      else Some (dispense_callback (ctx\<lparr>timers := timers ctx - 1\<rparr>)))"
| "handle Reset ctx = Some (reset ctx)"

text \<open>A sequence of events, delivered in order.\<close>

fun run :: "Event list \<Rightarrow> VendingMachine \<Rightarrow> VendingMachine option" where
  "run [] ctx = Some ctx"
| "run (e # es) ctx = (case handle e ctx of None \<Rightarrow> None | Some ctx' \<Rightarrow> run es ctx')"

subsection \<open>The switch-based machine (lines 29-107)\<close>

datatype State = IDLE | ITEM_SELECTED | HAS_MONEY | DISPENSING

record NaiveVendingMachine =
  naive_currentState :: State
  naive_selectedItem :: string
  naive_insertedAmount :: number
  naive_console :: "line list"
  naive_timers :: nat

text \<open>The field initialisers of lines 37-39.\<close>

definition new_NaiveVendingMachine :: NaiveVendingMachine where
  "new_NaiveVendingMachine =
     \<lparr>naive_currentState = IDLE, naive_selectedItem = '''', naive_insertedAmount = 0,
      naive_console = [], naive_timers = 0\<rparr>"

definition naive_log :: "line \<Rightarrow> NaiveVendingMachine \<Rightarrow> NaiveVendingMachine" where
  "naive_log l m = m\<lparr>naive_console := naive_console m @ [l]\<rparr>"

definition naive_selectItem :: "string \<Rightarrow> NaiveVendingMachine \<Rightarrow> NaiveVendingMachine" where
  "naive_selectItem itemCode m =
     (case naive_currentState m of
        IDLE \<Rightarrow> m\<lparr>naive_selectedItem := itemCode, naive_currentState := ITEM_SELECTED\<rparr>
      | ITEM_SELECTED \<Rightarrow> naive_log [Txt ''Item already selected''] m
      | HAS_MONEY \<Rightarrow> naive_log [Txt ''Payment already received for item''] m
      | DISPENSING \<Rightarrow> naive_log [Txt ''Currently dispensing''] m)"

definition naive_insertCoin :: "number \<Rightarrow> NaiveVendingMachine \<Rightarrow> NaiveVendingMachine" where
  "naive_insertCoin amount m =
     (case naive_currentState m of
        IDLE \<Rightarrow> naive_log [Txt ''No item selected''] m
      | ITEM_SELECTED \<Rightarrow>
          (naive_log [Txt ''Inserted $'', Amt amount, Txt '' for item'']
             (m\<lparr>naive_insertedAmount := amount\<rparr>))\<lparr>naive_currentState := HAS_MONEY\<rparr>
      | HAS_MONEY \<Rightarrow> naive_log [Txt ''Money already inserted''] m
      | DISPENSING \<Rightarrow> naive_log [Txt ''Currently dispensing''] m)"

text \<open>The item code is printed between two apostrophes, \<open>CHR 0x27\<close>.\<close>

definition naive_dispenseItem :: "NaiveVendingMachine \<Rightarrow> NaiveVendingMachine" where
  "naive_dispenseItem m =
     (case naive_currentState m of
        IDLE \<Rightarrow> naive_log [Txt ''No item selected''] m
      | ITEM_SELECTED \<Rightarrow> naive_log [Txt ''Please insert coin first''] m
      | HAS_MONEY \<Rightarrow>
          (naive_log
             [Txt (''Dispensing item '' @ [CHR 0x27] @ naive_selectedItem m @
                   [CHR 0x27])] m)
            \<lparr>naive_currentState := DISPENSING, naive_timers := Suc (naive_timers m)\<rparr>
      | DISPENSING \<Rightarrow> naive_log [Txt ''Already dispensing. Please wait.''] m)"

definition resetMachine :: "NaiveVendingMachine \<Rightarrow> NaiveVendingMachine" where
  "resetMachine m =
     m\<lparr>naive_selectedItem := '''', naive_insertedAmount := 0, naive_currentState := IDLE\<rparr>"

text \<open>The body of the callback of lines 91-94.\<close>

definition naive_callback :: "NaiveVendingMachine \<Rightarrow> NaiveVendingMachine" where
  "naive_callback m = resetMachine (naive_log [Txt ''Item dispensed successfully.''] m)"

text \<open>
  The same events on the switch-based machine. Its \<^verbatim>\<open>resetMachine\<close> is private: no
  caller can deliver \<open>Reset\<close>.
\<close>

fun naive_handle :: "Event \<Rightarrow> NaiveVendingMachine \<Rightarrow> NaiveVendingMachine option" where
  "naive_handle (SelectItem code) m = Some (naive_selectItem code m)"
| "naive_handle (InsertPayment amount) m = Some (naive_insertCoin amount m)"
| "naive_handle RequestDispense m = Some (naive_dispenseItem m)"
| "naive_handle DispenseComplete m =
     (if naive_timers m = 0 then None
      else Some (naive_callback (m\<lparr>naive_timers := naive_timers m - 1\<rparr>)))"
| "naive_handle Reset m = None"

fun naive_run :: "Event list \<Rightarrow> NaiveVendingMachine \<Rightarrow> NaiveVendingMachine option" where
  "naive_run [] m = Some m"
| "naive_run (e # es) m =
     (case naive_handle e m of None \<Rightarrow> None | Some m' \<Rightarrow> naive_run es m')"

text \<open>The state class that an enum value of the switch stands for.\<close>

fun state_class :: "State \<Rightarrow> MachineState" where
  "state_class IDLE = IdleState"
| "state_class ITEM_SELECTED = ItemSelectedState"
| "state_class HAS_MONEY = HasMoneyState"
| "state_class DISPENSING = DispensingState"

subsection \<open>The transition table of the specification\<close>

text \<open>
  The table of section 4.1 of the specification, as it is printed there: the next state
  where the table has a rule, \<open>None\<close> where it has a dash. It is the specification's
  reading, kept apart from the code and only compared with it.
\<close>

fun spec_table :: "MachineState \<Rightarrow> Event \<Rightarrow> MachineState option" where
  "spec_table s Reset = Some IdleState"
| "spec_table IdleState (SelectItem c) = Some ItemSelectedState"
| "spec_table ItemSelectedState (InsertPayment a) = Some HasMoneyState"
| "spec_table HasMoneyState RequestDispense = Some DispensingState"
| "spec_table DispensingState DispenseComplete = Some IdleState"
| "spec_table s e = None"

text \<open>
  An execution in which \<open>Reset\<close> is delivered only while no callback is pending.
\<close>

fun resets_when_quiet :: "Event list \<Rightarrow> VendingMachine \<Rightarrow> bool" where
  "resets_when_quiet [] ctx = True"
| "resets_when_quiet (e # es) ctx =
     ((if e = Reset then timers ctx = 0 else True) \<and>
      (case handle e ctx of None \<Rightarrow> True | Some ctx' \<Rightarrow> resets_when_quiet es ctx'))"

subsection \<open>Invariants of the executions\<close>

text \<open>One callback is pending while the machine dispenses, and none otherwise.\<close>

definition single_flight :: "VendingMachine \<Rightarrow> bool" where
  "single_flight ctx = (timers ctx = (if currentState ctx = DispensingState then 1 else 0))"

text \<open>
  What an idle machine holds: the two fields are either both still unassigned, or both
  hold the values that \<^verbatim>\<open>reset()\<close> writes.
\<close>

definition idle_fields :: "VendingMachine \<Rightarrow> bool" where
  "idle_fields ctx =
     (if currentState ctx = IdleState
      then (selectedItem ctx = None \<and> insertedAmount ctx = None) \<or>
           (selectedItem ctx = Some '''' \<and> insertedAmount ctx = Some 0)
      else True)"

text \<open>
  The two machines side by side: same state, same pending callbacks, and the same item
  and amount wherever the State-pattern machine has assigned its field.
\<close>

definition agrees :: "NaiveVendingMachine \<Rightarrow> VendingMachine \<Rightarrow> bool" where
  "agrees m ctx =
     (state_class (naive_currentState m) = currentState ctx \<and>
      naive_timers m = timers ctx \<and>
      (case selectedItem ctx of None \<Rightarrow> True | Some c \<Rightarrow> c = naive_selectedItem m) \<and>
      (case insertedAmount ctx of None \<Rightarrow> True | Some a \<Rightarrow> a = naive_insertedAmount m))"

lemmas vm_defs =
  console_log_def setTimeout_def setState_def setSelectedItem_def setInsertedAmount_def
  getSelectedItem_def reset_def dispense_callback_def selectItem_def insertCoin_def
  dispenseItem_def new_VendingMachine_def

lemmas naive_defs =
  new_NaiveVendingMachine_def naive_log_def naive_selectItem_def naive_insertCoin_def
  naive_dispenseItem_def resetMachine_def naive_callback_def


section \<open>Properties\<close>

subsection \<open>Steps of the State-pattern machine\<close>

lemma handle_timers:
  "handle e ctx = Some ctx' \<Longrightarrow>
     timers ctx' =
       (if e = RequestDispense \<and> currentState ctx = HasMoneyState then Suc (timers ctx)
        else if e = DispenseComplete then timers ctx - 1
        else timers ctx)"
  by (cases e; cases "currentState ctx") (auto simp: vm_defs split: if_splits)

lemma handle_single_flight:
  assumes "single_flight ctx" and "e = Reset \<Longrightarrow> timers ctx = 0"
    and "handle e ctx = Some ctx'"
  shows "single_flight ctx'"
  using assms
  by (cases e; cases "currentState ctx") (auto simp: vm_defs single_flight_def split: if_splits)

lemma run_single_flight:
  "single_flight ctx \<Longrightarrow> resets_when_quiet es ctx \<Longrightarrow> run es ctx = Some ctx' \<Longrightarrow>
     single_flight ctx'"
proof (induction es arbitrary: ctx)
  case Nil
  then show ?case by simp
next
  case (Cons e es)
  from Cons.prems(3) obtain c where c: "handle e ctx = Some c" and r: "run es c = Some ctx'"
    by (auto split: option.splits)
  from Cons.prems(2) c have q: "resets_when_quiet es c" and t: "e = Reset \<Longrightarrow> timers ctx = 0"
    by (auto split: if_splits)
  have "single_flight c"
    using handle_single_flight [OF Cons.prems(1) t c] .
  then show ?case using Cons.IH q r by blast
qed

lemma handle_idle_fields:
  "idle_fields ctx \<Longrightarrow> handle e ctx = Some ctx' \<Longrightarrow> idle_fields ctx'"
  by (cases e; cases "currentState ctx") (auto simp: vm_defs idle_fields_def split: if_splits)

lemma run_idle_fields:
  "idle_fields ctx \<Longrightarrow> run es ctx = Some ctx' \<Longrightarrow> idle_fields ctx'"
proof (induction es arbitrary: ctx)
  case Nil
  then show ?case by simp
next
  case (Cons e es)
  then show ?case
    by (auto split: option.splits dest: handle_idle_fields)
qed

text \<open>
  After any events, an idle machine holds either the unassigned fields of the constructor
  or the empty item and the amount 0 of \<^verbatim>\<open>reset()\<close>.
\<close>

lemma reachable_idle_fields:
  "run es new_VendingMachine = Some ctx \<Longrightarrow> idle_fields ctx"
  by (rule run_idle_fields [of new_VendingMachine]) (simp_all add: idle_fields_def vm_defs)

subsection \<open>The two machines side by side\<close>

lemma handle_agrees:
  assumes "agrees m ctx" and "e \<noteq> Reset"
  shows "rel_option agrees (naive_handle e m) (handle e ctx)"
  using assms
  by (cases e; cases "naive_currentState m")
     (auto simp: agrees_def vm_defs naive_defs split: option.splits)

text \<open>
  Without \<open>Reset\<close>, which the switch-based machine does not offer, the two machines
  accept the same sequences and stay in agreement: they pass through the same states.
\<close>

lemma run_agrees:
  "agrees m ctx \<Longrightarrow> Reset \<notin> set es \<Longrightarrow> rel_option agrees (naive_run es m) (run es ctx)"
proof (induction es arbitrary: m ctx)
  case Nil
  then show ?case by simp
next
  case (Cons e es)
  from Cons.prems(2) have e: "e \<noteq> Reset" and es: "Reset \<notin> set es"
    by auto
  have "rel_option agrees (naive_handle e m) (handle e ctx)"
    using Cons.prems(1) e by (rule handle_agrees)
  then show ?case
    using Cons.IH es
    by (cases "naive_handle e m"; cases "handle e ctx") auto
qed

lemma fresh_machines_agree:
  "Reset \<notin> set es \<Longrightarrow>
     rel_option agrees (naive_run es new_NaiveVendingMachine) (run es new_VendingMachine)"
  by (rule run_agrees) (simp_all add: agrees_def vm_defs naive_defs)

section \<open>The claims\<close>

subsection \<open>Events without a rule\<close>

text \<open>
  C1 (as amended). For every state and every event among SelectItem, InsertPayment and
  RequestDispense that has no rule in the transition table for that state, delivering
  the event writes one line to the console and changes nothing else: the state, the
  selected item, the inserted amount and the pending callbacks are as before.
  DispenseComplete is left out: the callback resets the machine in whatever state it
  finds it.
\<close>

theorem unlisted_user_event_only_logs:
  "e \<noteq> DispenseComplete \<Longrightarrow> spec_table (currentState ctx) e = None \<Longrightarrow>
     \<exists>d. handle e ctx = Some (ctx\<lparr>console := console ctx @ [d]\<rparr>)"
  by (cases e; cases "currentState ctx") (auto simp: vm_defs)

theorem unlisted_user_event_only_logs_witness:
  "RequestDispense \<noteq> DispenseComplete
   \<and> spec_table (currentState new_VendingMachine) RequestDispense = None
   \<and> (\<exists>d. handle RequestDispense new_VendingMachine =
            Some (new_VendingMachine\<lparr>console := console new_VendingMachine @ [d]\<rparr>))"
  using unlisted_user_event_only_logs [of RequestDispense new_VendingMachine]
  by (simp add: new_VendingMachine_def)

text \<open>
  The claim as written fails for DispenseComplete: the table has no rule for it in
  ItemSelected, yet a callback left over from a dispense that was reset runs there and
  takes the machine to Idle, clearing the item just selected.
\<close>

theorem stale_completion_leaves_ItemSelected:
  "spec_table ItemSelectedState DispenseComplete = None
   \<and> run [SelectItem ''A1'', InsertPayment 1.5, RequestDispense, Reset, SelectItem ''B2'']
        new_VendingMachine =
       Some \<lparr>currentState = ItemSelectedState, selectedItem = Some ''B2'',
             insertedAmount = Some 0,
             console = [[Txt ''Item selected: A1''],
                        [Txt ''Inserted $'', Amt 1.5, Txt '' for item: A1''],
                        [Txt ''Dispensing item: A1''],
                        [Txt ''Item selected: B2'']],
             timers = 1\<rparr>
   \<and> handle DispenseComplete
        \<lparr>currentState = ItemSelectedState, selectedItem = Some ''B2'',
         insertedAmount = Some 0,
         console = [[Txt ''Item selected: A1''],
                    [Txt ''Inserted $'', Amt 1.5, Txt '' for item: A1''],
                    [Txt ''Dispensing item: A1''],
                    [Txt ''Item selected: B2'']],
         timers = 1\<rparr> =
       Some \<lparr>currentState = IdleState, selectedItem = Some '''',
             insertedAmount = Some 0,
             console = [[Txt ''Item selected: A1''],
                        [Txt ''Inserted $'', Amt 1.5, Txt '' for item: A1''],
                        [Txt ''Dispensing item: A1''],
                        [Txt ''Item selected: B2''],
                        [Txt ''Item dispensed successfully.'']],
             timers = 0\<rparr>"
  by (simp add: vm_defs)

subsection \<open>Pending callbacks\<close>

text \<open>
  C2 (as amended). In every execution from a new machine in which Reset is delivered
  only while no callback is pending, at most one callback is pending at a time: exactly
  one while the machine dispenses and none otherwise. A callback is started by
  RequestDispense in HasMoney and by nothing else, one for each such transition; a
  completion takes one away and every other event leaves the number as it is.
\<close>

theorem one_callback_while_resets_are_quiet:
  assumes "resets_when_quiet es new_VendingMachine"
    and "run es new_VendingMachine = Some ctx"
    and "handle e ctx = Some ctx'"
  shows "timers ctx = (if currentState ctx = DispensingState then 1 else 0) \<and>
         timers ctx' =
           (if e = RequestDispense \<and> currentState ctx = HasMoneyState then Suc (timers ctx)
            else if e = DispenseComplete then timers ctx - 1
            else timers ctx)"
proof -
  have "single_flight new_VendingMachine"
    by (simp add: single_flight_def new_VendingMachine_def)
  then have "single_flight ctx"
    using assms(1,2) by (rule run_single_flight)
  then show ?thesis
    using handle_timers [OF assms(3)] by (simp add: single_flight_def)
qed

theorem one_callback_while_resets_are_quiet_witness:
  "resets_when_quiet [Reset, SelectItem ''A1'', InsertPayment 1.5] new_VendingMachine
   \<and> run [Reset, SelectItem ''A1'', InsertPayment 1.5] new_VendingMachine =
       Some \<lparr>currentState = HasMoneyState, selectedItem = Some ''A1'',
             insertedAmount = Some 1.5,
             console = [[Txt ''Item selected: A1''],
                        [Txt ''Inserted $'', Amt 1.5, Txt '' for item: A1'']],
             timers = 0\<rparr>
   \<and> handle RequestDispense
        \<lparr>currentState = HasMoneyState, selectedItem = Some ''A1'',
         insertedAmount = Some 1.5,
         console = [[Txt ''Item selected: A1''],
                    [Txt ''Inserted $'', Amt 1.5, Txt '' for item: A1'']],
         timers = 0\<rparr> =
       Some \<lparr>currentState = DispensingState, selectedItem = Some ''A1'',
             insertedAmount = Some 1.5,
             console = [[Txt ''Item selected: A1''],
                        [Txt ''Inserted $'', Amt 1.5, Txt '' for item: A1''],
                        [Txt ''Dispensing item: A1'']],
             timers = 1\<rparr>"
  using one_callback_while_resets_are_quiet
    [of "[Reset, SelectItem ''A1'', InsertPayment 1.5]"
        "\<lparr>currentState = HasMoneyState, selectedItem = Some ''A1'',
          insertedAmount = Some 1.5,
          console = [[Txt ''Item selected: A1''],
                     [Txt ''Inserted $'', Amt 1.5, Txt '' for item: A1'']],
          timers = 0\<rparr>"
        RequestDispense
        "\<lparr>currentState = DispensingState, selectedItem = Some ''A1'',
          insertedAmount = Some 1.5,
          console = [[Txt ''Item selected: A1''],
                     [Txt ''Inserted $'', Amt 1.5, Txt '' for item: A1''],
                     [Txt ''Dispensing item: A1'']],
          timers = 1\<rparr>"]
  by (simp add: vm_defs)

text \<open>
  The claim as written fails: Reset while dispensing leaves the callback pending, and
  the next transaction starts a second one beside it.
\<close>

theorem reset_then_second_callback:
  "run [SelectItem ''A1'', InsertPayment 1.5, RequestDispense, Reset,
        SelectItem ''B2'', InsertPayment 2, RequestDispense] new_VendingMachine =
     Some \<lparr>currentState = DispensingState, selectedItem = Some ''B2'',
           insertedAmount = Some 2,
           console = [[Txt ''Item selected: A1''],
                      [Txt ''Inserted $'', Amt 1.5, Txt '' for item: A1''],
                      [Txt ''Dispensing item: A1''],
                      [Txt ''Item selected: B2''],
                      [Txt ''Inserted $'', Amt 2, Txt '' for item: B2''],
                      [Txt ''Dispensing item: B2'']],
           timers = 2\<rparr>"
  by (simp add: vm_defs)

subsection \<open>Reset\<close>

text \<open>
  C3 (as amended). Reset, from any state, moves the machine to Idle, sets the selected
  item to the empty string and the inserted amount to 0, and does nothing else: the
  console and the pending callbacks are as before, so a callback that was pending is
  still pending.
\<close>

theorem reset_clears_and_keeps_callbacks:
  "handle Reset ctx =
     Some \<lparr>currentState = IdleState, selectedItem = Some '''', insertedAmount = Some 0,
           console = console ctx, timers = timers ctx\<rparr>"
  by (simp add: vm_defs)

text \<open>
  The claim as written fails: after Reset while dispensing the callback is still
  pending, and it runs afterwards.
\<close>

theorem callback_survives_reset:
  "run [SelectItem ''A1'', InsertPayment 1.5, RequestDispense, Reset] new_VendingMachine =
     Some \<lparr>currentState = IdleState, selectedItem = Some '''',
           insertedAmount = Some 0,
           console = [[Txt ''Item selected: A1''],
                      [Txt ''Inserted $'', Amt 1.5, Txt '' for item: A1''],
                      [Txt ''Dispensing item: A1'']],
           timers = 1\<rparr>
   \<and> run [SelectItem ''A1'', InsertPayment 1.5, RequestDispense, Reset, DispenseComplete]
        new_VendingMachine =
     Some \<lparr>currentState = IdleState, selectedItem = Some '''',
           insertedAmount = Some 0,
           console = [[Txt ''Item selected: A1''],
                      [Txt ''Inserted $'', Amt 1.5, Txt '' for item: A1''],
                      [Txt ''Dispensing item: A1''],
                      [Txt ''Item dispensed successfully.'']],
           timers = 0\<rparr>"
  by (simp add: vm_defs)

subsection \<open>The example scenario\<close>

text \<open>
  C4. From an idle machine, the events InsertPayment(1.0), SelectItem("B2"),
  InsertPayment(2.0), RequestDispense, DispenseComplete give in turn: a rejection that
  leaves the machine idle and unchanged but for one console line; ItemSelected with item
  "B2"; HasMoney with item "B2" and amount 2.0; Dispensing with item "B2" and one more
  pending callback; Idle with the empty item, the amount 0 and that callback gone.
\<close>

theorem example_scenario:
  assumes "currentState ctx = IdleState"
  shows
    "run [InsertPayment 1] ctx =
       Some (ctx\<lparr>console := console ctx @
               [[Txt ''Please select an item before inserting coins.'']]\<rparr>)
     \<and> run [InsertPayment 1, SelectItem ''B2''] ctx =
       Some (ctx\<lparr>currentState := ItemSelectedState, selectedItem := Some ''B2'',
               console := console ctx @
                 [[Txt ''Please select an item before inserting coins.''],
                  [Txt ''Item selected: B2'']]\<rparr>)
     \<and> run [InsertPayment 1, SelectItem ''B2'', InsertPayment 2] ctx =
       Some (ctx\<lparr>currentState := HasMoneyState, selectedItem := Some ''B2'',
               insertedAmount := Some 2,
               console := console ctx @
                 [[Txt ''Please select an item before inserting coins.''],
                  [Txt ''Item selected: B2''],
                  [Txt ''Inserted $'', Amt 2, Txt '' for item: B2'']]\<rparr>)
     \<and> run [InsertPayment 1, SelectItem ''B2'', InsertPayment 2, RequestDispense] ctx =
       Some (ctx\<lparr>currentState := DispensingState, selectedItem := Some ''B2'',
               insertedAmount := Some 2,
               console := console ctx @
                 [[Txt ''Please select an item before inserting coins.''],
                  [Txt ''Item selected: B2''],
                  [Txt ''Inserted $'', Amt 2, Txt '' for item: B2''],
                  [Txt ''Dispensing item: B2'']],
               timers := Suc (timers ctx)\<rparr>)
     \<and> run [InsertPayment 1, SelectItem ''B2'', InsertPayment 2, RequestDispense,
            DispenseComplete] ctx =
       Some (ctx\<lparr>currentState := IdleState, selectedItem := Some '''',
               insertedAmount := Some 0,
               console := console ctx @
                 [[Txt ''Please select an item before inserting coins.''],
                  [Txt ''Item selected: B2''],
                  [Txt ''Inserted $'', Amt 2, Txt '' for item: B2''],
                  [Txt ''Dispensing item: B2''],
                  [Txt ''Item dispensed successfully.'']]\<rparr>)"
  using assms by (cases ctx) (simp add: vm_defs)

theorem example_scenario_witness:
  "currentState new_VendingMachine = IdleState
   \<and> run [InsertPayment 1] new_VendingMachine =
       Some \<lparr>currentState = IdleState, selectedItem = None, insertedAmount = None,
             console = [[Txt ''Please select an item before inserting coins.'']],
             timers = 0\<rparr>
   \<and> run [InsertPayment 1, SelectItem ''B2'', InsertPayment 2, RequestDispense]
        new_VendingMachine =
       Some \<lparr>currentState = DispensingState, selectedItem = Some ''B2'',
             insertedAmount = Some 2,
             console = [[Txt ''Please select an item before inserting coins.''],
                        [Txt ''Item selected: B2''],
                        [Txt ''Inserted $'', Amt 2, Txt '' for item: B2''],
                        [Txt ''Dispensing item: B2'']],
             timers = 1\<rparr>
   \<and> run [InsertPayment 1, SelectItem ''B2'', InsertPayment 2, RequestDispense,
          DispenseComplete] new_VendingMachine =
       Some \<lparr>currentState = IdleState, selectedItem = Some '''',
             insertedAmount = Some 0,
             console = [[Txt ''Please select an item before inserting coins.''],
                        [Txt ''Item selected: B2''],
                        [Txt ''Inserted $'', Amt 2, Txt '' for item: B2''],
                        [Txt ''Dispensing item: B2''],
                        [Txt ''Item dispensed successfully.'']],
             timers = 0\<rparr>"
  using example_scenario [of new_VendingMachine]
  by (simp add: vm_defs)

subsection \<open>Payments\<close>

text \<open>
  C5 (as amended). For every amount, positive or not, InsertPayment while in
  ItemSelected is accepted: the amount is recorded as it is, the machine moves to
  HasMoney and one console line reports the insertion. The payload is not validated.
\<close>

theorem insertCoin_ItemSelected_accepts_any_amount:
  "currentState ctx = ItemSelectedState \<Longrightarrow>
     handle (InsertPayment a) ctx =
       Some (ctx\<lparr>currentState := HasMoneyState, insertedAmount := Some a,
                console := console ctx @
                  [[Txt ''Inserted $'', Amt a,
                    Txt ('' for item: '' @ js_string (selectedItem ctx))]]\<rparr>)"
  by (simp add: vm_defs)

theorem insertCoin_ItemSelected_accepts_any_amount_witness:
  "handle (InsertPayment 0)
     \<lparr>currentState = ItemSelectedState, selectedItem = Some ''A1'',
      insertedAmount = None, console = [[Txt ''Item selected: A1'']], timers = 0\<rparr> =
     Some \<lparr>currentState = HasMoneyState, selectedItem = Some ''A1'',
           insertedAmount = Some 0,
           console = [[Txt ''Item selected: A1''],
                      [Txt ''Inserted $'', Amt 0, Txt '' for item: A1'']],
           timers = 0\<rparr>"
  using insertCoin_ItemSelected_accepts_any_amount
    [of "\<lparr>currentState = ItemSelectedState, selectedItem = Some ''A1'',
          insertedAmount = None, console = [[Txt ''Item selected: A1'']], timers = 0\<rparr>" 0]
  by simp

text \<open>
  The claim as written fails: the payment of -1 is accepted and recorded.
\<close>

theorem nonpositive_payment_accepted:
  "(-1 :: number) \<le> 0
   \<and> run [SelectItem ''A1''] new_VendingMachine =
       Some \<lparr>currentState = ItemSelectedState, selectedItem = Some ''A1'',
             insertedAmount = None, console = [[Txt ''Item selected: A1'']],
             timers = 0\<rparr>
   \<and> run [SelectItem ''A1'', InsertPayment (-1)] new_VendingMachine =
       Some \<lparr>currentState = HasMoneyState, selectedItem = Some ''A1'',
             insertedAmount = Some (-1),
             console = [[Txt ''Item selected: A1''],
                        [Txt ''Inserted $'', Amt (-1), Txt '' for item: A1'']],
             timers = 0\<rparr>"
  by (simp add: vm_defs)

text \<open>
  C8. While the machine has money, inserting any amount writes the line
  "Money already inserted." and changes nothing else: the state stays HasMoney, and the
  selected item, the inserted amount and the pending callbacks are as before; the
  amount offered is neither added to the recorded one nor put in its place.
\<close>

theorem insertCoin_HasMoney_rejected:
  "currentState ctx = HasMoneyState \<Longrightarrow>
     handle (InsertPayment a) ctx =
       Some (ctx\<lparr>console := console ctx @ [[Txt ''Money already inserted.'']]\<rparr>)"
  by (simp add: vm_defs)

theorem insertCoin_HasMoney_rejected_witness:
  "run [SelectItem ''A1'', InsertPayment 1.5] new_VendingMachine =
     Some \<lparr>currentState = HasMoneyState, selectedItem = Some ''A1'',
           insertedAmount = Some 1.5,
           console = [[Txt ''Item selected: A1''],
                      [Txt ''Inserted $'', Amt 1.5, Txt '' for item: A1'']],
           timers = 0\<rparr>
   \<and> handle (InsertPayment 2)
       \<lparr>currentState = HasMoneyState, selectedItem = Some ''A1'',
        insertedAmount = Some 1.5,
        console = [[Txt ''Item selected: A1''],
                   [Txt ''Inserted $'', Amt 1.5, Txt '' for item: A1'']],
        timers = 0\<rparr> =
     Some \<lparr>currentState = HasMoneyState, selectedItem = Some ''A1'',
           insertedAmount = Some 1.5,
           console = [[Txt ''Item selected: A1''],
                      [Txt ''Inserted $'', Amt 1.5, Txt '' for item: A1''],
                      [Txt ''Money already inserted.'']],
           timers = 0\<rparr>"
  using insertCoin_HasMoney_rejected
    [of "\<lparr>currentState = HasMoneyState, selectedItem = Some ''A1'',
         insertedAmount = Some 1.5,
         console = [[Txt ''Item selected: A1''],
                    [Txt ''Inserted $'', Amt 1.5, Txt '' for item: A1'']],
         timers = 0\<rparr>" 2]
  by (simp add: vm_defs)

subsection \<open>Rejections repeat\<close>

text \<open>
  C7 (as amended). For every state and every event among SelectItem, InsertPayment and
  RequestDispense that the transition table rejects in that state, delivering the event
  twice in succession is idempotent: the first attempt writes one diagnostic line and
  changes nothing else, the second attempt writes the same line again, and after both
  the state, the selected item, the inserted amount and the pending callbacks are what
  they were before the first. DispenseComplete is left out.
\<close>

theorem rejected_user_event_repeats:
  "e \<noteq> DispenseComplete \<Longrightarrow> spec_table (currentState ctx) e = None \<Longrightarrow>
     \<exists>d. handle e ctx = Some (ctx\<lparr>console := console ctx @ [d]\<rparr>)
       \<and> handle e (ctx\<lparr>console := console ctx @ [d]\<rparr>) =
           Some (ctx\<lparr>console := console ctx @ [d, d]\<rparr>)
       \<and> run [e, e] ctx = Some (ctx\<lparr>console := console ctx @ [d, d]\<rparr>)"
  by (cases ctx; cases e; cases "currentState ctx") (auto simp: vm_defs)

theorem rejected_user_event_repeats_witness:
  "RequestDispense \<noteq> DispenseComplete
   \<and> spec_table DispensingState RequestDispense = None
   \<and> run [SelectItem ''A1'', InsertPayment 1.5, RequestDispense] new_VendingMachine =
       Some \<lparr>currentState = DispensingState, selectedItem = Some ''A1'',
             insertedAmount = Some 1.5,
             console = [[Txt ''Item selected: A1''],
                        [Txt ''Inserted $'', Amt 1.5, Txt '' for item: A1''],
                        [Txt ''Dispensing item: A1'']],
             timers = 1\<rparr>
   \<and> run [RequestDispense, RequestDispense]
        \<lparr>currentState = DispensingState, selectedItem = Some ''A1'',
         insertedAmount = Some 1.5,
         console = [[Txt ''Item selected: A1''],
                    [Txt ''Inserted $'', Amt 1.5, Txt '' for item: A1''],
                    [Txt ''Dispensing item: A1'']],
         timers = 1\<rparr> =
       Some \<lparr>currentState = DispensingState, selectedItem = Some ''A1'',
             insertedAmount = Some 1.5,
             console = [[Txt ''Item selected: A1''],
                        [Txt ''Inserted $'', Amt 1.5, Txt '' for item: A1''],
                        [Txt ''Dispensing item: A1''],
                        [Txt ''Already dispensing. Please wait.''],
                        [Txt ''Already dispensing. Please wait.'']],
             timers = 1\<rparr>"
  using rejected_user_event_repeats
    [of RequestDispense
        "\<lparr>currentState = DispensingState, selectedItem = Some ''A1'',
          insertedAmount = Some 1.5,
          console = [[Txt ''Item selected: A1''],
                     [Txt ''Inserted $'', Amt 1.5, Txt '' for item: A1''],
                     [Txt ''Dispensing item: A1'']],
          timers = 1\<rparr>"]
  by (simp add: vm_defs)

text \<open>
  The claim as written fails for DispenseComplete, which the table rejects in
  ItemSelected: with two callbacks left over from dispenses that were reset, delivering
  it twice takes the machine from ItemSelected with item "B2" to Idle with the empty
  item, and what is written both times is the success line of the callback.
\<close>

theorem repeated_stale_completion_drifts:
  "spec_table ItemSelectedState DispenseComplete = None
   \<and> run [SelectItem ''A1'', InsertPayment 1.5, RequestDispense, Reset,
          SelectItem ''A2'', InsertPayment 1, RequestDispense, Reset,
          SelectItem ''B2''] new_VendingMachine =
       Some \<lparr>currentState = ItemSelectedState, selectedItem = Some ''B2'',
             insertedAmount = Some 0,
             console = [[Txt ''Item selected: A1''],
                        [Txt ''Inserted $'', Amt 1.5, Txt '' for item: A1''],
                        [Txt ''Dispensing item: A1''],
                        [Txt ''Item selected: A2''],
                        [Txt ''Inserted $'', Amt 1, Txt '' for item: A2''],
                        [Txt ''Dispensing item: A2''],
                        [Txt ''Item selected: B2'']],
             timers = 2\<rparr>
   \<and> run [DispenseComplete, DispenseComplete]
        \<lparr>currentState = ItemSelectedState, selectedItem = Some ''B2'',
         insertedAmount = Some 0,
         console = [[Txt ''Item selected: A1''],
                    [Txt ''Inserted $'', Amt 1.5, Txt '' for item: A1''],
                    [Txt ''Dispensing item: A1''],
                    [Txt ''Item selected: A2''],
                    [Txt ''Inserted $'', Amt 1, Txt '' for item: A2''],
                    [Txt ''Dispensing item: A2''],
                    [Txt ''Item selected: B2'']],
         timers = 2\<rparr> =
       Some \<lparr>currentState = IdleState, selectedItem = Some '''',
             insertedAmount = Some 0,
             console = [[Txt ''Item selected: A1''],
                        [Txt ''Inserted $'', Amt 1.5, Txt '' for item: A1''],
                        [Txt ''Dispensing item: A1''],
                        [Txt ''Item selected: A2''],
                        [Txt ''Inserted $'', Amt 1, Txt '' for item: A2''],
                        [Txt ''Dispensing item: A2''],
                        [Txt ''Item selected: B2''],
                        [Txt ''Item dispensed successfully.''],
                        [Txt ''Item dispensed successfully.'']],
             timers = 0\<rparr>"
  by (simp add: vm_defs)

subsection \<open>The fields of a new machine\<close>

text \<open>
  C6. A new machine is idle, and its selected item and inserted amount are unassigned:
  they are neither the empty string nor 0. The claim, that an idle machine always holds
  the empty string and 0, is what the switch-based machine and \<^verbatim>\<open>reset()\<close> provide and
  what the constructor of the State-pattern machine omits; the fields stay unassigned
  while the machine rejects events in Idle.
\<close>

theorem new_machine_fields_unassigned:
  "currentState new_VendingMachine = IdleState
   \<and> selectedItem new_VendingMachine = None
   \<and> insertedAmount new_VendingMachine = None
   \<and> selectedItem new_VendingMachine \<noteq> Some ''''
   \<and> insertedAmount new_VendingMachine \<noteq> Some 0
   \<and> run [InsertPayment 1, RequestDispense] new_VendingMachine =
       Some \<lparr>currentState = IdleState, selectedItem = None, insertedAmount = None,
             console = [[Txt ''Please select an item before inserting coins.''],
                        [Txt ''No item selected. Nothing to dispense.'']],
             timers = 0\<rparr>"
  by (simp add: vm_defs)

subsection \<open>The two machines compared\<close>

text \<open>
  C9. On new instances the two machines do not end with equal fields: before any event
  the State-pattern machine has its item and amount unassigned where the switch-based
  machine holds the empty string and 0, and after SelectItem("A1") both are in
  ItemSelected with item "A1" but the amounts are unassigned and 0. The states passed
  through are the same (\<open>fresh_machines_agree\<close>).
\<close>

theorem machines_differ_on_unassigned_fields:
  "run [] new_VendingMachine =
     Some \<lparr>currentState = IdleState, selectedItem = None, insertedAmount = None,
           console = [], timers = 0\<rparr>
   \<and> naive_run [] new_NaiveVendingMachine =
     Some \<lparr>naive_currentState = IDLE, naive_selectedItem = '''',
           naive_insertedAmount = 0, naive_console = [], naive_timers = 0\<rparr>
   \<and> run [SelectItem ''A1''] new_VendingMachine =
     Some \<lparr>currentState = ItemSelectedState, selectedItem = Some ''A1'',
           insertedAmount = None, console = [[Txt ''Item selected: A1'']], timers = 0\<rparr>
   \<and> naive_run [SelectItem ''A1''] new_NaiveVendingMachine =
     Some \<lparr>naive_currentState = ITEM_SELECTED, naive_selectedItem = ''A1'',
           naive_insertedAmount = 0, naive_console = [], naive_timers = 0\<rparr>"
  by (simp add: vm_defs naive_defs)

subsection \<open>A callback that outlives its dispense\<close>

text \<open>
  C10. The callback resets the machine whatever state it runs in: it writes "Item
  dispensed successfully.", moves the machine to Idle and sets the item to the empty
  string and the amount to 0. So after a dispense, a Reset while dispensing and a new
  transaction (SelectItem("B2"), InsertPayment(2.0)), the machine is in HasMoney with
  item "B2", amount 2.0 and the first callback still pending; when that callback runs,
  the machine is idle and the new item and amount are gone.
\<close>

theorem stale_callback_erases_new_transaction:
  "dispense_callback ctx =
     \<lparr>currentState = IdleState, selectedItem = Some '''', insertedAmount = Some 0,
      console = console ctx @ [[Txt ''Item dispensed successfully.'']],
      timers = timers ctx\<rparr>
   \<and> run [SelectItem ''A1'', InsertPayment 1.5, RequestDispense, Reset,
          SelectItem ''B2'', InsertPayment 2] new_VendingMachine =
       Some \<lparr>currentState = HasMoneyState, selectedItem = Some ''B2'',
             insertedAmount = Some 2,
             console = [[Txt ''Item selected: A1''],
                        [Txt ''Inserted $'', Amt 1.5, Txt '' for item: A1''],
                        [Txt ''Dispensing item: A1''],
                        [Txt ''Item selected: B2''],
                        [Txt ''Inserted $'', Amt 2, Txt '' for item: B2'']],
             timers = 1\<rparr>
   \<and> run [SelectItem ''A1'', InsertPayment 1.5, RequestDispense, Reset,
          SelectItem ''B2'', InsertPayment 2, DispenseComplete] new_VendingMachine =
       Some \<lparr>currentState = IdleState, selectedItem = Some '''',
             insertedAmount = Some 0,
             console = [[Txt ''Item selected: A1''],
                        [Txt ''Inserted $'', Amt 1.5, Txt '' for item: A1''],
                        [Txt ''Dispensing item: A1''],
                        [Txt ''Item selected: B2''],
                        [Txt ''Inserted $'', Amt 2, Txt '' for item: B2''],
                        [Txt ''Item dispensed successfully.'']],
             timers = 0\<rparr>"
  by (simp add: vm_defs)
end
